theory Spec2Isabelle
  imports Complex_Main "HOL-Library.Word" "HOL-Library.AList"
    "HOL-Library.List_Lexorder" "HOL-Library.Char_ord"
begin

unbundle bit_operations_syntax

text \<open>
  A model of \<open>app.py\<close>, the multi-meter PAC3200 dashboard: the meter object with its
  register map and its reads, and the SQLite store with its schema initialisation, its
  meter registry, its writes and its two queries over all meters. Everything that the
  program takes from outside (the device's answers, the clock, the random sample, the
  state of the database file) is an argument of the functions below.
\<close>

section \<open>Values\<close>

text \<open>
  A Python float. Finite values are kept as the real number they denote, so the
  rounding of arithmetic on them is not modelled; the three special values of
  IEEE-754 are constructors of their own, since the code tests for them.
\<close>

datatype fl = Finite real | PosInf | NegInf | NaN

fun isnan :: "fl \<Rightarrow> bool" where
  "isnan NaN = True"
| "isnan _ = False"

fun isinf :: "fl \<Rightarrow> bool" where
  "isinf PosInf = True"
| "isinf NegInf = True"
| "isinf _ = False"

text \<open>
  A Python dict is an association list in insertion order with distinct keys:
  \<open>d[k] = v\<close> is \<^const>\<open>AList.update\<close>, which overwrites in place when the key
  is bound and appends otherwise. A dict display \<open>{k1: v1, k2: v2, ...}\<close> performs the
  assignments from left to right on the empty dict.
\<close>

definition dict_of :: "('k \<times> 'v) list \<Rightarrow> ('k \<times> 'v) list" where
  "dict_of kvs = fold (\<lambda>(k, v) d. AList.update k v d) kvs []"

section \<open>PAC3200Meter\<close>

subsection \<open>The register map\<close>

text \<open>The entries of the dict display assigned to \<open>self.registers\<close>, in source order.\<close>

definition registers_literal :: "(string \<times> nat) list" where
  "registers_literal = [
    (''V1_N_Voltage'', 1), (''V2_N_Voltage'', 3), (''V3_N_Voltage'', 5),
    (''V1_V2_Voltage'', 7), (''V2_V3_Voltage'', 9), (''V3_V1_Voltage'', 11),
    (''Maximum_Voltage_V1_n'', 75), (''Maximum_Voltage_V2_n'', 77), (''Maximum_Voltage_V3_n'', 79),
    (''Maximum_Voltage_V1_2'', 81), (''Maximum_Voltage_V2_3'', 83), (''Maximum_Voltage_V3_1'', 85),
    (''Minimum_Voltage_V1_n'', 145), (''Minimum_Voltage_V2_n'', 147), (''Minimum_Voltage_V3_n'', 149),
    (''Minimum_Voltage_V1_2'', 151), (''Minimum_Voltage_V2_3'', 153), (''Minimum_Voltage_V3_1'', 155),
    (''THD_R_Voltage_1'', 43), (''THD_R_Voltage_2'', 45), (''THD_R_Voltage_3'', 47),
    (''Average_Voltage_Vph_n'', 57), (''Average_Voltage_Vph_ph'', 59),
    (''Amplitude_Unbalance_Voltage'', 71),
    (''L1_Current'', 13), (''L2_Current'', 15), (''L3_Current'', 17),
    (''Maximum_Current_1'', 87), (''Maximum_Current_2'', 89), (''Maximum_Current_3'', 91),
    (''Minimum_Current_1'', 157), (''Maximum_Current_2'', 159), (''Minimum_Current_3'', 161),
    (''Average_Current'', 61),
    (''THD_R_Current_1'', 49), (''THD_R_Current_2'', 51), (''THD_R_Current_3'', 53),
    (''Amplitude_Unbalance_Current'', 73),
    (''L1_Active_Power'', 25), (''L2_Active_Power'', 27), (''L3_Active_Power'', 29),
    (''Maximum_Active_Power_1'', 99), (''Maximum_Active_Power_2'', 101), (''Maximum_Active_Power_3'', 103),
    (''Minimum_Active_Power_1'', 169), (''Minimum_Active_Power_2'', 171), (''Minimum_Active_Power_3'', 173),
    (''Total_Active_Power'', 65),
    (''L1_Reactive_Power'', 31), (''L2_Reactive_Power'', 33), (''L3_Reactive_Power'', 35),
    (''Maximum_Reactive_Power_1'', 105), (''Maximum_Reactive_Power_2'', 107), (''Maximum_Reactive_Power_3'', 109),
    (''Minimum_Reactive_Power_1'', 175), (''Minimum_Reactive_Power_2'', 177), (''Minimum_Reactive_Power_3'', 179),
    (''Total_Reactive_Power'', 67),
    (''L1_Apparent_Power'', 19), (''L2_Apparent_Power'', 21), (''L3_Apparent_Power'', 23),
    (''Maximum_Apparent_Power_1'', 93), (''Maximum_Apparent_Power_2'', 95), (''Maximum_Apparent_Power_3'', 97),
    (''Minimum_Apparent_Power_1'', 163), (''Minimum_Apparent_Power_2'', 165), (''Minimum_Apparent_Power_3'', 167),
    (''Total_Apparent_Power'', 63),
    (''L1_Power_Factor'', 37), (''L2_Power_Factor'', 39), (''L3_Power_Factor'', 41),
    (''Maximum_Power_Factor_1'', 111), (''Maximum_Power_Factor_2'', 113), (''Maximum_Power_Factor_3'', 115),
    (''Minimum_Power_Factor_1'', 181), (''Minimum_Power_Factor_2'', 183), (''Minimum_Power_Factor_3'', 185),
    (''Total_Power_Factor'', 69),
    (''Frequency'', 55),
    (''Total_Active_Energy'', 801),
    (''Total_Reactive_Energy'', 805)]"

definition registers :: "(string \<times> nat) list" where
  "registers = dict_of registers_literal"

subsection \<open>The meter object\<close>

text \<open>
  The fields set by \<open>PAC3200Meter.__init__\<close>. \<open>client\<close> is a reference to a
  Modbus client object (\<open>None\<close> until a connection is made); whether the socket of
  a client object is open is kept in a store indexed by the reference, so that closing
  it stays visible after the meter object is dropped. \<open>self.registers\<close> is the
  constant \<^const>\<open>registers\<close>.
\<close>

record 'ts meter =
  meter_id :: string
  name :: string
  host :: string
  port :: int
  unit_id :: int
  timeout :: int
  location :: string
  description :: string
  client :: "nat option"
  connected :: bool
  last_reading :: "(string \<times> fl option) list option"
  last_reading_time :: "'ts option"

definition PAC3200Meter ::
  "string \<Rightarrow> string \<Rightarrow> string \<Rightarrow> int \<Rightarrow> int \<Rightarrow> string \<Rightarrow> string \<Rightarrow> 'ts meter" where
  "PAC3200Meter mid nm h p u loc descr =
     \<lparr>meter_id = mid, name = nm, host = h, port = p, unit_id = u, timeout = 3,
      location = loc, description = descr, client = None, connected = False,
      last_reading = None, last_reading_time = None\<rparr>"

text \<open>
  \<open>disconnect\<close>: closes the client when there is one and the Modbus library was
  imported, and clears the flag. It returns the updated socket store and meter.
\<close>

definition disconnect ::
  "bool \<Rightarrow> (nat \<Rightarrow> bool) \<Rightarrow> 'ts meter \<Rightarrow> (nat \<Rightarrow> bool) \<times> 'ts meter" where
  "disconnect MODBUS_AVAILABLE sockets m =
     ((case client m of
         Some c \<Rightarrow> if MODBUS_AVAILABLE then sockets(c := False) else sockets
       | None \<Rightarrow> sockets),
      m\<lparr>connected := False\<rparr>)"

subsection \<open>Decoding a register pair\<close>

text \<open>
  The value of an IEEE-754 binary32 bit pattern: bit 31 is the sign, bits 30 to 23 the
  biased exponent, bits 22 to 0 the fraction. Exponent 255 encodes the infinities
  (fraction 0) and the NaNs; exponent 0 the zeros and subnormals. Every finite binary32
  value is a Python float, so the conversion is exact.
\<close>

definition float32_of_bits :: "32 word \<Rightarrow> fl" where
  "float32_of_bits w =
     (let s = bit w 31;
          e = unat (drop_bit 23 w AND 0xFF);
          f = unat (w AND 0x7FFFFF);
          sgn = (if s then -1 else 1 :: real)
      in if e = 255 then (if f = 0 then (if s then NegInf else PosInf) else NaN)
         else if e = 0 then Finite (sgn * real f / 2 ^ 149)
         else if 150 \<le> e then Finite (sgn * real (2 ^ 23 + f) * 2 ^ (e - 150))
         else Finite (sgn * real (2 ^ 23 + f) / 2 ^ (150 - e)))"

text \<open>
  \<open>BinaryPayloadDecoder.fromRegisters(rr.registers, byteorder=Endian.Big,
  wordorder=Endian.Big).decode_32bit_float()\<close>: the registers are laid out in order,
  each most significant byte first, and the first four bytes are unpacked as a
  big-endian binary32. With fewer than two registers the unpacking raises; that is
  \<open>None\<close> here.
\<close>

fun decode_32bit_float :: "16 word list \<Rightarrow> fl option" where
  "decode_32bit_float (r0 # r1 # rs) = Some (float32_of_bits (word_cat r0 r1))"
| "decode_32bit_float _ = None"

subsection \<open>Reading one register\<close>

text \<open>
  What \<open>client.read_holding_registers(address, 2, unit=unit_id)\<close> can do: raise,
  return an error response (\<open>isError()\<close> is true), or return register words.
\<close>

datatype response = ReadRaises | ErrorResponse | Registers "16 word list"

text \<open>
  What one call of \<open>read_float32_register\<close> takes from outside the program: the
  device's answer, the value of \<open>hash\<close> on meter identifiers, the clock
  \<open>time.time()\<close> and the sample drawn by \<open>np.random.normal(0, 0.02)\<close>. The clock
  and the sample are finite floats.
\<close>

record read_env =
  response :: response
  py_hash :: "string \<Rightarrow> int"
  base_time :: real
  noise :: real

definition voltage_registers :: "nat list" where
  "voltage_registers = [1, 3, 5, 7, 9, 11, 57, 59]"

definition current_registers :: "nat list" where
  "current_registers = [13, 15, 17, 61]"

definition power_registers :: "nat list" where
  "power_registers = [25, 27, 29, 31, 33, 35, 19, 21, 23, 65, 67, 63]"

definition power_factor_registers :: "nat list" where
  "power_factor_registers = [37, 39, 41, 69]"

definition frequency_registers :: "nat list" where
  "frequency_registers = [55]"

definition thd_registers :: "nat list" where
  "thd_registers = [43, 45, 47, 49, 51, 53]"

definition energy_registers :: "nat list" where
  "energy_registers = [801, 805]"

definition generate_simulated_value :: "read_env \<Rightarrow> 'ts meter \<Rightarrow> nat \<Rightarrow> real" where
  "generate_simulated_value env m register_address =
     (let meter_offset = real_of_int (py_hash env (meter_id m) mod 10) / 10;
          variation = sin (base_time env / 10 + meter_offset) * 0.1 + noise env
      in if register_address \<in> set voltage_registers then
           (if register_address \<in> set [57, 59]
            then 230 + variation * 10 + meter_offset * 5
            else 230 + variation * 15 + meter_offset * 5)
         else if register_address \<in> set current_registers then
           10 + variation * 5 + meter_offset * 3
         else if register_address \<in> set power_registers then
           (if register_address = 65 then 2300 + variation * 300 + meter_offset * 500
            else if register_address \<in> set [67, 63]
            then 2400 + variation * 320 + meter_offset * 500
            else 760 + variation * 100 + meter_offset * 150)
         else if register_address \<in> set power_factor_registers then
           0.85 + variation * 0.1
         else if register_address \<in> set frequency_registers then
           50.0 + variation * 0.2
         else if register_address \<in> set thd_registers then
           2.5 + \<bar>variation\<bar> * 2
         else if register_address \<in> set energy_registers then
           1000000 + base_time env * 100 + meter_offset * 100000
         else \<bar>variation\<bar> * 100)"

text \<open>
  \<open>read_float32_register\<close>. Without the Modbus library the simulated value is
  returned. With it, every exception inside the \<open>try\<close> block yields \<open>None\<close>, as do
  a missing client, a closed socket, an error response, and a decoded NaN or infinity.
\<close>

definition read_float32_register ::
  "bool \<Rightarrow> (nat \<Rightarrow> bool) \<Rightarrow> read_env \<Rightarrow> 'ts meter \<Rightarrow> nat \<Rightarrow> fl option" where
  "read_float32_register MODBUS_AVAILABLE sockets env m register_address =
     (if \<not> MODBUS_AVAILABLE then Some (Finite (generate_simulated_value env m register_address))
      else (case client m of
              None \<Rightarrow> None
            | Some c \<Rightarrow>
                (if \<not> sockets c then None
                 else (case response env of
                         ReadRaises \<Rightarrow> None
                       | ErrorResponse \<Rightarrow> None
                       | Registers rs \<Rightarrow>
                           (case decode_32bit_float rs of
                              None \<Rightarrow> None
                            | Some v \<Rightarrow> (if isnan v \<or> isinf v then None else Some v))))))"

subsection \<open>Reading the whole map\<close>

text \<open>
  \<open>read_all_parameters\<close>: the loop over \<open>self.registers.items()\<close> assigns
  \<open>data[param_name]\<close> once per entry; \<open>env\<close> gives the outside world of the call
  made for each register address, \<open>now\<close> is \<open>datetime.now()\<close>. The \<open>except\<close> branch
  of the loop body stores \<open>None\<close>; \<^const>\<open>read_float32_register\<close> has no raising
  outcome left, so the branch is not reached.
\<close>

definition read_all_parameters ::
  "bool \<Rightarrow> (nat \<Rightarrow> bool) \<Rightarrow> (nat \<Rightarrow> read_env) \<Rightarrow> 'ts \<Rightarrow> 'ts meter
     \<Rightarrow> (string \<times> fl option) list \<times> 'ts meter" where
  "read_all_parameters MODBUS_AVAILABLE sockets env now m =
     (let data = fold (\<lambda>(param_name, register_addr) data.
                   AList.update param_name
                     (read_float32_register MODBUS_AVAILABLE sockets (env register_addr) m register_addr)
                     data)
                  registers []
      in (data, m\<lparr>last_reading := Some data, last_reading_time := Some now\<rparr>))"

section \<open>The database\<close>

text \<open>
  A value bound to a placeholder of the \<open>INSERT\<close> statement of \<open>save_reading\<close>: a
  Python \<open>str\<close> (the meter identifier) or a Python float.
\<close>

datatype cell = CText string | CReal fl

text \<open>
  A row of the reading table: the \<open>AUTOINCREMENT\<close> key, the meter identifier (\<open>None\<close>
  is SQL \<open>NULL\<close>), the timestamp, and the measurement columns that are not \<open>NULL\<close>
  with their values. Timestamps are kept abstract: \<open>'ts\<close> is the type of the stored
  timestamp values with the order SQLite compares them by.
\<close>

record 'ts reading =
  row_id :: nat
  row_meter_id :: "string option"
  timestamp :: 'ts
  vals :: "(string \<times> fl) list"

text \<open>
  A table holding readings: the column names that \<open>PRAGMA table_info\<close> reports, the
  rows in insertion order, and the largest key handed out so far (the table's entry in
  \<open>sqlite_sequence\<close>). A table left by an older version of the program (one with a
  \<open>device_id\<close> column) is represented in the same way; the source shows nothing of its
  layout beyond that column.
\<close>

record 'ts table =
  columns :: "string list"
  rows :: "'ts reading list"
  seq :: nat

text \<open>A row of \<open>meters_config\<close>; \<open>location\<close> and \<open>description\<close> may be \<open>NULL\<close>.\<close>

record 'ts config_row =
  cfg_meter_id :: string
  cfg_name :: string
  cfg_host :: string
  cfg_port :: int
  cfg_unit_id :: int
  cfg_location :: "string option"
  cfg_description :: "string option"
  created_at :: 'ts
  updated_at :: 'ts

text \<open>
  The database file: the three tables the program names, each absent or present, and
  the table that the index named \<open>idx_readings_meter_timestamp\<close> belongs to, if an
  index of that name exists (index names are global in SQLite).
\<close>

record 'ts database =
  pac3200_readings :: "'ts table option"
  pac3200_readings_backup :: "'ts table option"
  meters_config :: "'ts config_row list option"
  idx_readings_meter_timestamp :: "string option"

text \<open>The columns of the \<open>CREATE TABLE pac3200_readings\<close> statement, in order.\<close>

definition reading_columns :: "string list" where
  "reading_columns = [
    ''id'', ''meter_id'', ''timestamp'', ''V1_N_Voltage'', ''V2_N_Voltage'', ''V3_N_Voltage'',
    ''V1_V2_Voltage'', ''V2_V3_Voltage'', ''V3_V1_Voltage'', ''Maximum_Voltage_V1_n'',
    ''Maximum_Voltage_V2_n'', ''Maximum_Voltage_V3_n'', ''Maximum_Voltage_V1_2'',
    ''Maximum_Voltage_V2_3'', ''Maximum_Voltage_V3_1'', ''Minimum_Voltage_V1_n'',
    ''Minimum_Voltage_V2_n'', ''Minimum_Voltage_V3_n'', ''Minimum_Voltage_V1_2'',
    ''Minimum_Voltage_V2_3'', ''Minimum_Voltage_V3_1'', ''L1_Current'', ''L2_Current'',
    ''L3_Current'', ''Maximum_Current_1'', ''Maximum_Current_2'', ''Maximum_Current_3'',
    ''Minimum_Current_1'', ''Minimum_Current_2'', ''Minimum_Current_3'', ''L1_Active_Power'',
    ''L2_Active_Power'', ''L3_Active_Power'', ''Maximum_Active_Power_1'',
    ''Maximum_Active_Power_2'', ''Maximum_Active_Power_3'', ''Minimum_Active_Power_1'',
    ''Minimum_Active_Power_2'', ''Minimum_Active_Power_3'', ''L1_Reactive_Power'',
    ''L2_Reactive_Power'', ''L3_Reactive_Power'', ''Maximum_Reactive_Power_1'',
    ''Maximum_Reactive_Power_2'', ''Maximum_Reactive_Power_3'', ''Minimum_Reactive_Power_1'',
    ''Minimum_Reactive_Power_2'', ''Minimum_Reactive_Power_3'', ''L1_Apparent_Power'',
    ''L2_Apparent_Power'', ''L3_Apparent_Power'', ''Maximum_Apparent_Power_1'',
    ''Maximum_Apparent_Power_2'', ''Maximum_Apparent_Power_3'', ''Minimum_Apparent_Power_1'',
    ''Minimum_Apparent_Power_2'', ''Minimum_Apparent_Power_3'', ''L1_Power_Factor'',
    ''L2_Power_Factor'', ''L3_Power_Factor'', ''Maximum_Power_Factor_1'',
    ''Maximum_Power_Factor_2'', ''Maximum_Power_Factor_3'', ''Minimum_Power_Factor_1'',
    ''Minimum_Power_Factor_2'', ''Minimum_Power_Factor_3'', ''Total_Active_Power'',
    ''Total_Reactive_Power'', ''Total_Apparent_Power'', ''Total_Power_Factor'', ''Frequency'',
    ''Average_Current'', ''Average_Voltage_Vph_n'', ''Average_Voltage_Vph_ph'',
    ''THD_R_Voltage_1'', ''THD_R_Voltage_2'', ''THD_R_Voltage_3'', ''THD_R_Current_1'',
    ''THD_R_Current_2'', ''THD_R_Current_3'', ''Amplitude_Unbalance_Voltage'',
    ''Amplitude_Unbalance_Current'', ''Total_Active_Energy'', ''Total_Reactive_Energy'']"

section \<open>MultiMeterDashboard\<close>

text \<open>
  The dashboard object holds the dict \<open>self.meters\<close>; the database is the file named
  by \<open>self.db_name\<close>, and \<open>sockets\<close> tells for every client object whether its
  socket is open.
\<close>

record 'ts dashboard =
  db :: "'ts database"
  meters :: "(string \<times> 'ts meter) list"
  sockets :: "nat \<Rightarrow> bool"

subsection \<open>init_database\<close>

text \<open>\<open>DROP TABLE IF EXISTS pac3200_readings\<close>; the table's indexes go with it.\<close>

definition drop_readings :: "'ts database \<Rightarrow> 'ts database" where
  "drop_readings d =
     d\<lparr>pac3200_readings := None,
       idx_readings_meter_timestamp :=
         (if idx_readings_meter_timestamp d = Some ''pac3200_readings'' then None
          else idx_readings_meter_timestamp d)\<rparr>"

text \<open>
  \<open>init_database\<close>. The only statement that can fail on a reachable database file is
  the \<open>ALTER TABLE ... RENAME\<close>, which raises when a table of the backup name is
  already there; the \<open>except\<close> branch then returns \<open>False\<close>, and nothing has been
  changed before. A renamed table keeps its rows, its key counter and its indexes.
\<close>

definition init_database :: "'ts database \<Rightarrow> bool \<times> 'ts database" where
  "init_database d =
     (let columns_now = (case pac3200_readings d of None \<Rightarrow> [] | Some t \<Rightarrow> columns t);
          count = (case pac3200_readings d of None \<Rightarrow> 0 | Some t \<Rightarrow> length (rows t))
      in if ''device_id'' \<in> set columns_now \<and> count > 0 \<and> pac3200_readings_backup d \<noteq> None
         then (False, d)
         else
           let d1 = (if ''device_id'' \<in> set columns_now then
                       (if count > 0 then
                          d\<lparr>pac3200_readings := None,
                            pac3200_readings_backup := pac3200_readings d,
                            idx_readings_meter_timestamp :=
                              (if idx_readings_meter_timestamp d = Some ''pac3200_readings''
                               then Some ''pac3200_readings_backup''
                               else idx_readings_meter_timestamp d)\<rparr>
                        else drop_readings d)
                     else d);
               d2 = d1\<lparr>meters_config :=
                          (case meters_config d1 of None \<Rightarrow> Some [] | Some c \<Rightarrow> Some c)\<rparr>;
               d3 = drop_readings d2;
               d4 = d3\<lparr>pac3200_readings :=
                          Some \<lparr>columns = reading_columns, rows = [], seq = 0\<rparr>\<rparr>;
               d5 = d4\<lparr>idx_readings_meter_timestamp :=
                          (case idx_readings_meter_timestamp d4 of
                             None \<Rightarrow> Some ''pac3200_readings''
                           | Some t \<Rightarrow> Some t)\<rparr>
           in (True, d5))"

subsection \<open>add_meter, remove_meter, load_meters_config\<close>

text \<open>The integers SQLite stores; binding a Python int outside this range raises.\<close>

definition sqlite_integer :: "int \<Rightarrow> bool" where
  "sqlite_integer i \<longleftrightarrow> - (2 ^ 63) \<le> i \<and> i < 2 ^ 63"

text \<open>
  \<open>add_meter\<close>: \<open>INSERT OR REPLACE\<close> removes the row with the same primary key, if
  any, and appends the new one; \<open>created_at\<close> takes its default and \<open>updated_at\<close> is
  set, both to \<open>CURRENT_TIMESTAMP\<close> (\<open>now\<close>). A missing table or an integer that
  SQLite cannot store raises; the \<open>except\<close> branch returns \<open>False\<close> before
  \<open>self.meters\<close> is touched.
\<close>

definition add_meter ::
  "'ts \<Rightarrow> string \<Rightarrow> string \<Rightarrow> string \<Rightarrow> int \<Rightarrow> int \<Rightarrow> string \<Rightarrow> string \<Rightarrow> 'ts dashboard
     \<Rightarrow> bool \<times> 'ts dashboard" where
  "add_meter now mid nm h p u loc descr s =
     (let m = PAC3200Meter mid nm h p u loc descr
      in case meters_config (db s) of
           None \<Rightarrow> (False, s)
         | Some cfg \<Rightarrow>
             if \<not> (sqlite_integer p \<and> sqlite_integer u) then (False, s)
             else
               let new_row = \<lparr>cfg_meter_id = mid, cfg_name = nm, cfg_host = h, cfg_port = p,
                              cfg_unit_id = u, cfg_location = Some loc,
                              cfg_description = Some descr, created_at = now, updated_at = now\<rparr>;
                   cfg' = filter (\<lambda>r. cfg_meter_id r \<noteq> mid) cfg @ [new_row]
               in (True, s\<lparr>db := (db s)\<lparr>meters_config := Some cfg'\<rparr>,
                           meters := AList.update mid m (meters s)\<rparr>))"

text \<open>
  \<open>remove_meter\<close>: the meter object, when there is one, is disconnected and deleted
  from \<open>self.meters\<close> first; then the \<open>DELETE\<close> runs, which raises when the table is
  missing (the function then returns \<open>False\<close>, the dict already changed). SQLite does
  not enforce the foreign key of the reading table (the pragma is never switched on),
  so the reading table is not consulted.
\<close>

definition remove_meter :: "bool \<Rightarrow> string \<Rightarrow> 'ts dashboard \<Rightarrow> bool \<times> 'ts dashboard" where
  "remove_meter MODBUS_AVAILABLE mid s =
     (let s1 = (case map_of (meters s) mid of
                  Some m \<Rightarrow> s\<lparr>sockets := fst (disconnect MODBUS_AVAILABLE (sockets s) m),
                              meters := AList.delete mid (meters s)\<rparr>
                | None \<Rightarrow> s)
      in case meters_config (db s1) of
           None \<Rightarrow> (False, s1)
         | Some cfg \<Rightarrow>
             (True, s1\<lparr>db := (db s1)\<lparr>meters_config :=
                                       Some (filter (\<lambda>r. cfg_meter_id r \<noteq> mid) cfg)\<rparr>\<rparr>))"

text \<open>
  \<open>load_meters_config\<close>: one meter object per configuration row, in row order; a
  missing table raises and the \<open>except\<close> branch passes. \<open>x or ""\<close> is the empty string
  for \<open>NULL\<close> (and for the empty string).
\<close>

definition or_empty :: "string option \<Rightarrow> string" where
  "or_empty x = (case x of None \<Rightarrow> [] | Some t \<Rightarrow> t)"

definition load_meters_config :: "'ts dashboard \<Rightarrow> 'ts dashboard" where
  "load_meters_config s =
     (case meters_config (db s) of
        None \<Rightarrow> s
      | Some cfg \<Rightarrow>
          s\<lparr>meters :=
              fold (\<lambda>row ms.
                      AList.update (cfg_meter_id row)
                        (PAC3200Meter (cfg_meter_id row) (cfg_name row) (cfg_host row)
                           (cfg_port row) (cfg_unit_id row)
                           (or_empty (cfg_location row)) (or_empty (cfg_description row)))
                        ms)
                   cfg (meters s)\<rparr>)"

text \<open>A new dashboard object on a database file: \<open>self.meters = {}\<close>, then the load.\<close>

definition fresh_load :: "'ts database \<Rightarrow> (nat \<Rightarrow> bool) \<Rightarrow> 'ts dashboard" where
  "fresh_load d sk = load_meters_config \<lparr>db = d, meters = [], sockets = sk\<rparr>"

text \<open>\<open>MultiMeterDashboard.__init__\<close>: initialise the database, then load.\<close>

definition MultiMeterDashboard :: "'ts database \<Rightarrow> (nat \<Rightarrow> bool) \<Rightarrow> 'ts dashboard" where
  "MultiMeterDashboard d sk = fresh_load (snd (init_database d)) sk"

subsection \<open>save_reading\<close>

text \<open>
  The parameter map \<open>data\<close> binds parameter names to a float or \<open>None\<close>, as
  \<open>read_all_parameters\<close> produces it, so \<open>isinstance(v, float)\<close> holds of every
  value that is not \<open>None\<close>. \<open>valid_data\<close> and \<open>filtered_data\<close> are the two dicts
  of the source; the meter identifier is stored into \<open>valid_data\<close> before the columns
  are intersected.
\<close>

definition valid_data :: "string \<Rightarrow> (string \<times> fl option) list \<Rightarrow> (string \<times> cell) list" where
  "valid_data mid data =
     AList.update ''meter_id'' (CText mid)
       (concat (map (\<lambda>(k, v). case v of None \<Rightarrow> []
                                 | Some x \<Rightarrow> if isnan x then [] else [(k, CReal x)]) data))"

definition existing_columns :: "'ts database \<Rightarrow> string list" where
  "existing_columns d = (case pac3200_readings d of None \<Rightarrow> [] | Some t \<Rightarrow> columns t)"

definition db_columns :: "'ts database \<Rightarrow> string list" where
  "db_columns d = filter (\<lambda>col. col \<notin> set [''id'', ''timestamp'']) (existing_columns d)"

definition filtered_data ::
  "'ts database \<Rightarrow> string \<Rightarrow> (string \<times> fl option) list \<Rightarrow> (string \<times> cell) list" where
  "filtered_data d mid data = filter (\<lambda>(k, v). k \<in> set (db_columns d)) (valid_data mid data)"

text \<open>
  The row that \<open>INSERT INTO pac3200_readings (columns) VALUES (values)\<close> creates: the
  key is the next one, the timestamp takes its default \<open>CURRENT_TIMESTAMP\<close>, the named
  columns take the bound values and every other column is \<open>NULL\<close>.
\<close>

definition inserted_row :: "nat \<Rightarrow> 'ts \<Rightarrow> (string \<times> cell) list \<Rightarrow> 'ts reading" where
  "inserted_row k now fd =
     \<lparr>row_id = k,
      row_meter_id = (case map_of fd ''meter_id'' of Some (CText t) \<Rightarrow> Some t | _ \<Rightarrow> None),
      timestamp = now,
      vals = concat (map (\<lambda>(c, v). case v of CReal x \<Rightarrow> [(c, x)] | CText t \<Rightarrow> []) fd)\<rparr>"

text \<open>
  \<open>save_reading\<close> returns the new key, or \<open>None\<close>. \<open>now\<close> is the value of
  \<open>CURRENT_TIMESTAMP\<close> when the statement runs. When the table is missing,
  \<open>PRAGMA table_info\<close> reports no column and \<open>filtered_data\<close> is empty.
\<close>

definition save_reading ::
  "'ts \<Rightarrow> string \<Rightarrow> (string \<times> fl option) list \<Rightarrow> 'ts database \<Rightarrow> nat option \<times> 'ts database" where
  "save_reading now mid data d =
     (let fd = filtered_data d mid data
      in if fd = [] then (None, d)
         else case pac3200_readings d of
                None \<Rightarrow> (None, d)
              | Some t \<Rightarrow>
                  let record_id = seq t + 1
                  in (Some record_id,
                      d\<lparr>pac3200_readings :=
                          Some (t\<lparr>rows := rows t @ [inserted_row record_id now fd],
                                  seq := record_id\<rparr>)\<rparr>))"

subsection \<open>get_all_meters_latest\<close>




subsection \<open>get_aggregated_data\<close>










subsection \<open>Database files used in the examples\<close>

text \<open>The file that \<open>sqlite3.connect\<close> creates when there is none: no table, no index.\<close>

definition empty_database :: "'ts database" where
  "empty_database =
     \<lparr>pac3200_readings = None, pac3200_readings_backup = None, meters_config = None,
      idx_readings_meter_timestamp = None\<rparr>"


text \<open>
  Meter \<open>m1\<close> is configured and has two readings stamped in the same second; meter
  \<open>m2\<close> has a reading and no configuration row.
\<close>

definition same_second_readings :: "nat table" where
  "same_second_readings =
     \<lparr>columns = reading_columns,
      rows = [\<lparr>row_id = 1, row_meter_id = Some ''m1'', timestamp = 7,
               vals = [(''Total_Active_Power'', Finite 100), (''Frequency'', Finite 50)]\<rparr>,
              \<lparr>row_id = 2, row_meter_id = Some ''m1'', timestamp = 7,
               vals = [(''Total_Active_Power'', Finite 150), (''Frequency'', Finite 49)]\<rparr>,
              \<lparr>row_id = 3, row_meter_id = Some ''m2'', timestamp = 3,
               vals = [(''Total_Active_Power'', Finite 20)]\<rparr>],
      seq = 3\<rparr>"

definition same_second_config :: "nat config_row list" where
  "same_second_config =
     [\<lparr>cfg_meter_id = ''m1'', cfg_name = ''Main'', cfg_host = ''192.168.0.101'',
       cfg_port = 502, cfg_unit_id = 1, cfg_location = Some ''Hall'',
       cfg_description = Some [], created_at = 1, updated_at = 1\<rparr>]"

definition same_second_database :: "nat database" where
  "same_second_database =
     empty_database
       \<lparr>pac3200_readings := Some same_second_readings,
        meters_config := Some same_second_config\<rparr>"

text \<open>A meter whose client object 0 has been created by a connection.\<close>

definition connected_meter :: "nat meter" where
  "connected_meter =
     (PAC3200Meter ''m1'' ''Main'' ''192.168.0.101'' 502 1 ''Hall'' [])
       \<lparr>client := Some 0, connected := True\<rparr>"

definition quiet_env :: "response \<Rightarrow> read_env" where
  "quiet_env r = \<lparr>response = r, py_hash = (\<lambda>_. 0), base_time = 0, noise = 0\<rparr>"

text \<open>
  A parameter map with a finite value, a NaN, a \<open>None\<close>, and a name that is no column
  of the reading table.
\<close>

definition example_data :: "(string \<times> fl option) list" where
  "example_data =
     [(''Frequency'', Some (Finite 50)), (''L1_Current'', Some NaN), (''V1_N_Voltage'', None),
      (''Spare'', Some (Finite 1))]"

subsection \<open>Notions used in the statements\<close>




text \<open>A dashboard on the initialised empty database, and one with a connected meter.\<close>

definition new_dashboard :: "nat dashboard" where
  "new_dashboard = \<lparr>db = snd (init_database empty_database), meters = [], sockets = (\<lambda>_. False)\<rparr>"

definition running_dashboard :: "nat dashboard" where
  "running_dashboard =
     \<lparr>db = same_second_database, meters = [(''m1'', connected_meter)], sockets = (\<lambda>_. True)\<rparr>"

section \<open>Dicts and the register map\<close>

lemma fold_update_distinct:
  "distinct (map fst d0) \<Longrightarrow> distinct (map fst (fold (\<lambda>(k, v) d. AList.update k (f k v) d) kvs d0))"
  by (induction kvs arbitrary: d0) (auto simp: AList.distinct_update split: prod.splits)

lemma update_append_fresh:
  "k \<notin> set (map fst d) \<Longrightarrow> AList.update k v d = d @ [(k, v)]"
  by (induction d) auto

lemma fold_update_map:
  "distinct (map fst kvs) \<Longrightarrow> set (map fst d0) \<inter> set (map fst kvs) = {} \<Longrightarrow>
   fold (\<lambda>(k, v) d. AList.update k (f k v) d) kvs d0 = d0 @ map (\<lambda>(k, v). (k, f k v)) kvs"
proof (induction kvs arbitrary: d0)
  case Nil
  then show ?case by simp
next
  case (Cons p kvs)
  obtain k v where p: "p = (k, v)" by (cases p)
  from Cons.prems have fresh: "k \<notin> set (map fst d0)" by (auto simp: p)
  have "fold (\<lambda>(k, v) d. AList.update k (f k v) d) kvs (d0 @ [(k, f k v)])
        = (d0 @ [(k, f k v)]) @ map (\<lambda>(k, v). (k, f k v)) kvs"
    using Cons.prems by (intro Cons.IH) (auto simp: p)
  then show ?case by (simp add: p update_append_fresh [OF fresh])
qed

lemma dict_of_distinct: "distinct (map fst (dict_of kvs))"
  unfolding dict_of_def using fold_update_distinct [of "[]" "\<lambda>k v. v" kvs] by simp

lemma registers_distinct: "distinct (map fst registers)"
  by (simp add: registers_def dict_of_distinct)

lemma registers_value: "registers = [(''V1_N_Voltage'', 1), (''V2_N_Voltage'', 3),
     (''V3_N_Voltage'', 5), (''V1_V2_Voltage'', 7), (''V2_V3_Voltage'', 9),
     (''V3_V1_Voltage'', 11), (''Maximum_Voltage_V1_n'', 75), (''Maximum_Voltage_V2_n'', 77),
     (''Maximum_Voltage_V3_n'', 79), (''Maximum_Voltage_V1_2'', 81),
     (''Maximum_Voltage_V2_3'', 83), (''Maximum_Voltage_V3_1'', 85),
     (''Minimum_Voltage_V1_n'', 145), (''Minimum_Voltage_V2_n'', 147),
     (''Minimum_Voltage_V3_n'', 149), (''Minimum_Voltage_V1_2'', 151),
     (''Minimum_Voltage_V2_3'', 153), (''Minimum_Voltage_V3_1'', 155), (''THD_R_Voltage_1'',
     43), (''THD_R_Voltage_2'', 45), (''THD_R_Voltage_3'', 47), (''Average_Voltage_Vph_n'',
     57), (''Average_Voltage_Vph_ph'', 59), (''Amplitude_Unbalance_Voltage'', 71),
     (''L1_Current'', 13), (''L2_Current'', 15), (''L3_Current'', 17),
     (''Maximum_Current_1'', 87), (''Maximum_Current_2'', 159), (''Maximum_Current_3'', 91),
     (''Minimum_Current_1'', 157), (''Minimum_Current_3'', 161), (''Average_Current'', 61),
     (''THD_R_Current_1'', 49), (''THD_R_Current_2'', 51), (''THD_R_Current_3'', 53),
     (''Amplitude_Unbalance_Current'', 73), (''L1_Active_Power'', 25), (''L2_Active_Power'',
     27), (''L3_Active_Power'', 29), (''Maximum_Active_Power_1'', 99),
     (''Maximum_Active_Power_2'', 101), (''Maximum_Active_Power_3'', 103),
     (''Minimum_Active_Power_1'', 169), (''Minimum_Active_Power_2'', 171),
     (''Minimum_Active_Power_3'', 173), (''Total_Active_Power'', 65), (''L1_Reactive_Power'',
     31), (''L2_Reactive_Power'', 33), (''L3_Reactive_Power'', 35),
     (''Maximum_Reactive_Power_1'', 105), (''Maximum_Reactive_Power_2'', 107),
     (''Maximum_Reactive_Power_3'', 109), (''Minimum_Reactive_Power_1'', 175),
     (''Minimum_Reactive_Power_2'', 177), (''Minimum_Reactive_Power_3'', 179),
     (''Total_Reactive_Power'', 67), (''L1_Apparent_Power'', 19), (''L2_Apparent_Power'',
     21), (''L3_Apparent_Power'', 23), (''Maximum_Apparent_Power_1'', 93),
     (''Maximum_Apparent_Power_2'', 95), (''Maximum_Apparent_Power_3'', 97),
     (''Minimum_Apparent_Power_1'', 163), (''Minimum_Apparent_Power_2'', 165),
     (''Minimum_Apparent_Power_3'', 167), (''Total_Apparent_Power'', 63),
     (''L1_Power_Factor'', 37), (''L2_Power_Factor'', 39), (''L3_Power_Factor'', 41),
     (''Maximum_Power_Factor_1'', 111), (''Maximum_Power_Factor_2'', 113),
     (''Maximum_Power_Factor_3'', 115), (''Minimum_Power_Factor_1'', 181),
     (''Minimum_Power_Factor_2'', 183), (''Minimum_Power_Factor_3'', 185),
     (''Total_Power_Factor'', 69), (''Frequency'', 55), (''Total_Active_Energy'', 801),
     (''Total_Reactive_Energy'', 805)]"
  by code_simp

lemma registers_keys: "map fst registers = [''V1_N_Voltage'', ''V2_N_Voltage'',
     ''V3_N_Voltage'', ''V1_V2_Voltage'', ''V2_V3_Voltage'', ''V3_V1_Voltage'',
     ''Maximum_Voltage_V1_n'', ''Maximum_Voltage_V2_n'', ''Maximum_Voltage_V3_n'',
     ''Maximum_Voltage_V1_2'', ''Maximum_Voltage_V2_3'', ''Maximum_Voltage_V3_1'',
     ''Minimum_Voltage_V1_n'', ''Minimum_Voltage_V2_n'', ''Minimum_Voltage_V3_n'',
     ''Minimum_Voltage_V1_2'', ''Minimum_Voltage_V2_3'', ''Minimum_Voltage_V3_1'',
     ''THD_R_Voltage_1'', ''THD_R_Voltage_2'', ''THD_R_Voltage_3'',
     ''Average_Voltage_Vph_n'', ''Average_Voltage_Vph_ph'', ''Amplitude_Unbalance_Voltage'',
     ''L1_Current'', ''L2_Current'', ''L3_Current'', ''Maximum_Current_1'',
     ''Maximum_Current_2'', ''Maximum_Current_3'', ''Minimum_Current_1'',
     ''Minimum_Current_3'', ''Average_Current'', ''THD_R_Current_1'', ''THD_R_Current_2'',
     ''THD_R_Current_3'', ''Amplitude_Unbalance_Current'', ''L1_Active_Power'',
     ''L2_Active_Power'', ''L3_Active_Power'', ''Maximum_Active_Power_1'',
     ''Maximum_Active_Power_2'', ''Maximum_Active_Power_3'', ''Minimum_Active_Power_1'',
     ''Minimum_Active_Power_2'', ''Minimum_Active_Power_3'', ''Total_Active_Power'',
     ''L1_Reactive_Power'', ''L2_Reactive_Power'', ''L3_Reactive_Power'',
     ''Maximum_Reactive_Power_1'', ''Maximum_Reactive_Power_2'',
     ''Maximum_Reactive_Power_3'', ''Minimum_Reactive_Power_1'',
     ''Minimum_Reactive_Power_2'', ''Minimum_Reactive_Power_3'', ''Total_Reactive_Power'',
     ''L1_Apparent_Power'', ''L2_Apparent_Power'', ''L3_Apparent_Power'',
     ''Maximum_Apparent_Power_1'', ''Maximum_Apparent_Power_2'',
     ''Maximum_Apparent_Power_3'', ''Minimum_Apparent_Power_1'',
     ''Minimum_Apparent_Power_2'', ''Minimum_Apparent_Power_3'', ''Total_Apparent_Power'',
     ''L1_Power_Factor'', ''L2_Power_Factor'', ''L3_Power_Factor'',
     ''Maximum_Power_Factor_1'', ''Maximum_Power_Factor_2'', ''Maximum_Power_Factor_3'',
     ''Minimum_Power_Factor_1'', ''Minimum_Power_Factor_2'', ''Minimum_Power_Factor_3'',
     ''Total_Power_Factor'', ''Frequency'', ''Total_Active_Energy'',
     ''Total_Reactive_Energy'']"
  by (simp add: registers_value)

lemma registers_length: "length registers = 80"
  by (simp add: registers_value)

lemma registers_Maximum_Current_2: "map_of registers ''Maximum_Current_2'' = Some 159"
  by (simp add: registers_value)

lemma registers_no_Minimum_Current_2: "''Minimum_Current_2'' \<notin> set (map fst registers)"
  unfolding registers_keys by simp


lemma literal_Maximum_Current_2:
  "filter (\<lambda>(k, v). k = ''Maximum_Current_2'') registers_literal
     = [(''Maximum_Current_2'', 89), (''Maximum_Current_2'', 159)]"
  by (simp add: registers_literal_def)

lemma read_all_parameters_data:
  "fst (read_all_parameters MA sk env now m) =
     map (\<lambda>(p, a). (p, read_float32_register MA sk (env a) m a)) registers"
  unfolding read_all_parameters_def Let_def fst_conv
  using fold_update_map [OF registers_distinct, of "[]" "\<lambda>p a. read_float32_register MA sk (env a) m a"]
  by simp

lemma read_all_parameters_keys: "map fst (fst (read_all_parameters MA sk env now m)) = map fst registers"
  by (simp add: read_all_parameters_data o_def case_prod_beta)

lemma not_special_finite: "\<not> isnan v \<Longrightarrow> \<not> isinf v \<Longrightarrow> \<exists>x. v = Finite x"
  by (cases v) auto

lemma read_float32_register_finite:
  "read_float32_register MA sk env m a = None \<or>
   (\<exists>x. read_float32_register MA sk env m a = Some (Finite x))"
  unfolding read_float32_register_def
  by (auto split: option.splits response.splits dest: not_special_finite)


section \<open>Reading a meter\<close>


lemma decode_examples:
  "decode_32bit_float [0x7FC0, 0] = Some NaN"
  "decode_32bit_float [0x7F80, 0] = Some PosInf"
  "decode_32bit_float [0xFF80, 0] = Some NegInf"
  "decode_32bit_float [0x4248, 0] = Some (Finite 50)"
  "decode_32bit_float [0x4248] = None"
  by (simp_all add: float32_of_bits_def Let_def word_cat_eq)

lemma connected_meter_client: "client connected_meter = Some 0"
  by (simp add: connected_meter_def PAC3200Meter_def)



lemma simulated_frequency:
  "read_float32_register False (\<lambda>_. False) (quiet_env ReadRaises) connected_meter 55
     = Some (Finite 50)"
  by (simp add: read_float32_register_def generate_simulated_value_def quiet_env_def Let_def
      voltage_registers_def current_registers_def power_registers_def power_factor_registers_def
      frequency_registers_def)

text \<open>
  Claim C6. In both modes \<open>read_float32_register\<close> returns \<open>None\<close> or a finite float,
  never NaN or an infinity; the model has no raising outcome. With the Modbus library
  the result is \<open>None\<close> when there is no client, when the client's socket is closed,
  when the read raises or answers with an error, when the payload cannot be unpacked,
  and when the decoded value is NaN or infinite; a finite decoded value is returned as
  it is. Without the library the simulated value is returned.
\<close>

theorem read_float32_register_finite_or_absent:
  "(read_float32_register MA sk env m a = None \<or>
      (\<exists>x. read_float32_register MA sk env m a = Some (Finite x))) \<and>
   (MA \<and> client m = None \<longrightarrow> read_float32_register MA sk env m a = None) \<and>
   (\<forall>c. MA \<and> client m = Some c \<and> \<not> sk c \<longrightarrow> read_float32_register MA sk env m a = None) \<and>
   (MA \<and> (response env = ReadRaises \<or> response env = ErrorResponse)
      \<longrightarrow> read_float32_register MA sk env m a = None) \<and>
   (\<forall>rs. MA \<and> response env = Registers rs \<and> decode_32bit_float rs = None
      \<longrightarrow> read_float32_register MA sk env m a = None) \<and>
   (\<forall>rs v. MA \<and> response env = Registers rs \<and> decode_32bit_float rs = Some v
        \<and> (isnan v \<or> isinf v)
      \<longrightarrow> read_float32_register MA sk env m a = None) \<and>
   (\<forall>c rs x. MA \<and> client m = Some c \<and> sk c \<and> response env = Registers rs
        \<and> decode_32bit_float rs = Some (Finite x)
      \<longrightarrow> read_float32_register MA sk env m a = Some (Finite x)) \<and>
   (\<not> MA \<longrightarrow> read_float32_register MA sk env m a
                = Some (Finite (generate_simulated_value env m a)))"
proof (intro conjI)
  show "read_float32_register MA sk env m a = None \<or>
      (\<exists>x. read_float32_register MA sk env m a = Some (Finite x))"
    by (rule read_float32_register_finite)
qed (auto simp: read_float32_register_def split: option.splits response.splits)

theorem read_float32_register_finite_or_absent_witness:
  "client connected_meter = Some 0 \<and>
   response (quiet_env (Registers [0x7F80, 0])) = Registers [0x7F80, 0] \<and>
   decode_32bit_float [0x7F80, 0] = Some PosInf \<and> isinf PosInf \<and>
   read_float32_register True (\<lambda>_. True) (quiet_env (Registers [0x7F80, 0])) connected_meter 55
     = None \<and>
   read_float32_register True (\<lambda>_. False) (quiet_env (Registers [0x4248, 0])) connected_meter 55
     = None \<and>
   read_float32_register True (\<lambda>_. True) (quiet_env (Registers [0x4248, 0])) connected_meter 55
     = Some (Finite 50) \<and>
   read_float32_register False (\<lambda>_. False) (quiet_env ReadRaises) connected_meter 55
     = Some (Finite 50)"
proof -
  have "client connected_meter = Some 0 \<and>
   response (quiet_env (Registers [0x7F80, 0])) = Registers [0x7F80, 0] \<and>
   decode_32bit_float [0x7F80, 0] = Some PosInf \<and> isinf PosInf \<and>
   read_float32_register True (\<lambda>_. True) (quiet_env (Registers [0x7F80, 0])) connected_meter 55
     = None \<and>
   read_float32_register True (\<lambda>_. False) (quiet_env (Registers [0x4248, 0])) connected_meter 55
     = None \<and>
   read_float32_register True (\<lambda>_. True) (quiet_env (Registers [0x4248, 0])) connected_meter 55
     = Some (Finite 50)"
    using read_float32_register_finite_or_absent
            [of True "\<lambda>_. True" "quiet_env (Registers [0x7F80, 0])" connected_meter 55]
          read_float32_register_finite_or_absent
            [of True "\<lambda>_. False" "quiet_env (Registers [0x4248, 0])" connected_meter 55]
          read_float32_register_finite_or_absent
            [of True "\<lambda>_. True" "quiet_env (Registers [0x4248, 0])" connected_meter 55]
    by (simp add: connected_meter_client quiet_env_def decode_examples
        del: decode_32bit_float.simps)
  with simulated_frequency show ?thesis by (intro conjI) (elim conjE, assumption)+
qed

section \<open>Saving a reading\<close>

lemma update_entry:
  "(c, y) \<in> set (AList.update k v al) \<Longrightarrow> (c = k \<and> y = v) \<or> (c, y) \<in> set al"
  by (induction al) (auto split: if_splits)

lemma update_binds: "(k, v) \<in> set (AList.update k v al)"
  by (induction al) auto

lemma valid_data_entry:
  "(c, y) \<in> set (valid_data mid data) \<Longrightarrow>
     (c = ''meter_id'' \<and> y = CText mid) \<or>
     (\<exists>x. y = CReal x \<and> (c, Some x) \<in> set data \<and> \<not> isnan x)"
  unfolding valid_data_def
  by (drule update_entry) (auto split: option.splits if_splits)

lemma valid_data_meter_id: "(''meter_id'', CText mid) \<in> set (valid_data mid data)"
  unfolding valid_data_def by (rule update_binds)

lemma filtered_data_entry:
  "(c, y) \<in> set (filtered_data d mid data) \<longleftrightarrow>
     (c, y) \<in> set (valid_data mid data) \<and> c \<in> set (db_columns d)"
  by (auto simp: filtered_data_def)

lemma db_columns_iff:
  "c \<in> set (db_columns d) \<longleftrightarrow> c \<in> set (existing_columns d) \<and> c \<noteq> ''id'' \<and> c \<noteq> ''timestamp''"
  by (auto simp: db_columns_def)

lemma vals_inserted_row:
  "(c, x) \<in> set (vals (inserted_row k now fd)) \<longleftrightarrow> (c, CReal x) \<in> set fd"
  by (auto simp: inserted_row_def split: cell.splits)

lemma save_reading_Some:
  "save_reading now mid data d = (Some k, d') \<Longrightarrow>
     \<exists>t. pac3200_readings d = Some t \<and> k = seq t + 1 \<and>
         d' = d\<lparr>pac3200_readings :=
                  Some (t\<lparr>rows := rows t @ [inserted_row k now (filtered_data d mid data)],
                          seq := k\<rparr>)\<rparr>"
  by (auto simp: save_reading_def Let_def split: if_splits option.splits)

lemma save_reading_None:
  "save_reading now mid data d = (None, d') \<Longrightarrow> d' = d"
  by (auto simp: save_reading_def Let_def split: if_splits option.splits)

lemma save_reading_inserts:
  assumes "pac3200_readings d = Some t" and "''meter_id'' \<in> set (columns t)"
  shows "save_reading now mid data d =
           (Some (seq t + 1),
            d\<lparr>pac3200_readings :=
                Some (t\<lparr>rows := rows t @ [inserted_row (seq t + 1) now (filtered_data d mid data)],
                        seq := seq t + 1\<rparr>)\<rparr>)"
proof -
  have "''meter_id'' \<in> set (db_columns d)"
    using assms by (simp add: db_columns_iff existing_columns_def)
  then have "(''meter_id'', CText mid) \<in> set (filtered_data d mid data)"
    by (simp add: filtered_data_entry valid_data_meter_id)
  then have "filtered_data d mid data \<noteq> []" by auto
  then show ?thesis
    using assms by (simp add: save_reading_def Let_def)
qed

lemma init_empty:
  "init_database (empty_database :: 'ts database) =
     (True, \<lparr>pac3200_readings = Some \<lparr>columns = reading_columns, rows = [], seq = 0\<rparr>,
             pac3200_readings_backup = None, meters_config = Some [],
             idx_readings_meter_timestamp = Some ''pac3200_readings''\<rparr>)"
  by (simp add: init_database_def empty_database_def drop_readings_def Let_def)

lemma reading_columns_meter_id: "''meter_id'' \<in> set reading_columns"
  by (simp add: reading_columns_def)

lemma filtered_empty_map:
  "pac3200_readings d = Some t \<Longrightarrow> ''meter_id'' \<in> set (columns t) \<Longrightarrow>
   filtered_data d mid [] = [(''meter_id'', CText mid)]"
  by (simp add: filtered_data_def valid_data_def db_columns_def existing_columns_def)

text \<open>
  Claim C1. The claim asks that \<open>save_reading\<close> inserts nothing and returns \<open>None\<close>
  when no entry of the parameter map survives the two filters. The code stores the
  meter identifier into \<open>valid_data\<close> before it intersects with the columns, so on a
  table that has a \<open>meter_id\<close> column \<open>filtered_data\<close> is never empty
  (\<open>save_reading_inserts\<close>) and the test \<open>if not filtered_data\<close> never holds: with
  the empty parameter map, on the database as \<open>init_database\<close> creates it, a row
  holding only the meter identifier is inserted and its key 1 is returned.
\<close>

theorem save_reading_empty_map_inserts:
  "save_reading (0::nat) ''m1'' [] (snd (init_database empty_database)) =
     (Some 1,
      \<lparr>pac3200_readings =
         Some \<lparr>columns = reading_columns,
               rows = [\<lparr>row_id = 1, row_meter_id = Some ''m1'', timestamp = 0, vals = []\<rparr>],
               seq = 1\<rparr>,
       pac3200_readings_backup = None, meters_config = Some [],
       idx_readings_meter_timestamp = Some ''pac3200_readings''\<rparr>)"
  by (simp add: init_empty save_reading_inserts [where t = "\<lparr>columns = reading_columns, rows = [], seq = 0\<rparr>"]
      reading_columns_meter_id filtered_empty_map [where t = "\<lparr>columns = reading_columns, rows = [], seq = 0\<rparr>"]
      inserted_row_def)

lemma initial_readings:
  "pac3200_readings (snd (init_database (empty_database :: 'ts database)))
     = Some \<lparr>columns = reading_columns, rows = [], seq = 0\<rparr>"
  by (simp add: init_empty)

lemma filtered_infinite:
  "filtered_data (snd (init_database (empty_database :: 'ts database))) ''m1''
      [(''Frequency'', Some PosInf)]
    = [(''Frequency'', CReal PosInf), (''meter_id'', CText ''m1'')]"
  by (simp add: filtered_data_def valid_data_def db_columns_def existing_columns_def
      init_empty reading_columns_def)

text \<open>
  An infinite value passes \<open>save_reading\<close>: the filter tests for \<open>None\<close> and NaN
  only.
\<close>

theorem save_reading_infinite_counterexample:
  "save_reading (0::nat) ''m1'' [(''Frequency'', Some PosInf)]
      (snd (init_database empty_database)) =
     (Some 1,
      \<lparr>pac3200_readings =
         Some \<lparr>columns = reading_columns,
               rows = [\<lparr>row_id = 1, row_meter_id = Some ''m1'', timestamp = 0,
                        vals = [(''Frequency'', PosInf)]\<rparr>],
               seq = 1\<rparr>,
       pac3200_readings_backup = None, meters_config = Some [],
       idx_readings_meter_timestamp = Some ''pac3200_readings''\<rparr>)"
  by (simp add: save_reading_inserts [OF initial_readings] reading_columns_meter_id
      filtered_infinite inserted_row_def)
     (simp add: init_empty)

lemma save_reading_row_entries:
  assumes "save_reading now mid data d = (Some k, d')"
  shows "\<exists>t row.
           pac3200_readings d = Some t \<and>
           pac3200_readings d' = Some (t\<lparr>rows := rows t @ [row], seq := k\<rparr>) \<and>
           row_id row = k \<and> timestamp row = now \<and>
           (\<forall>(c, x) \<in> set (vals row).
              \<not> isnan x \<and> (c, Some x) \<in> set data \<and>
              c \<in> set (columns t) \<and> c \<noteq> ''id'' \<and> c \<noteq> ''timestamp'') \<and>
           ((\<forall>(c, v) \<in> set data. \<forall>x. v = Some x \<longrightarrow> \<not> isinf x) \<longrightarrow>
            (\<forall>(c, x) \<in> set (vals row). \<exists>y. x = Finite y))"
proof -
  from save_reading_Some [OF assms] obtain t where
    t: "pac3200_readings d = Some t" and
    d': "d' = d\<lparr>pac3200_readings :=
                  Some (t\<lparr>rows := rows t @ [inserted_row k now (filtered_data d mid data)],
                          seq := k\<rparr>)\<rparr>"
    by blast
  let ?row = "inserted_row k now (filtered_data d mid data)"
  have entry: "\<not> isnan x \<and> (c, Some x) \<in> set data \<and>
               c \<in> set (columns t) \<and> c \<noteq> ''id'' \<and> c \<noteq> ''timestamp''"
    if "(c, x) \<in> set (vals ?row)" for c x
  proof -
    from that have fd: "(c, CReal x) \<in> set (filtered_data d mid data)"
      by (simp add: vals_inserted_row)
    then have "(c, CReal x) \<in> set (valid_data mid data)" and col: "c \<in> set (db_columns d)"
      by (simp_all add: filtered_data_entry)
    from valid_data_entry [OF this(1)] have "(c, Some x) \<in> set data \<and> \<not> isnan x"
      by auto
    with col t show ?thesis
      by (simp add: db_columns_iff existing_columns_def)
  qed
  have finite: "\<exists>y. x = Finite y"
    if "\<forall>(c, v) \<in> set data. \<forall>x. v = Some x \<longrightarrow> \<not> isinf x" and "(c, x) \<in> set (vals ?row)"
    for c x
  proof -
    from entry [OF that(2)] have "\<not> isnan x" and "(c, Some x) \<in> set data" by simp_all
    with that(1) have "\<not> isinf x" by fastforce
    with \<open>\<not> isnan x\<close> show ?thesis by (rule not_special_finite)
  qed
  have "pac3200_readings d' = Some (t\<lparr>rows := rows t @ [?row], seq := k\<rparr>)"
    by (simp add: d')
  moreover have "row_id ?row = k \<and> timestamp ?row = now"
    by (simp add: inserted_row_def)
  ultimately show ?thesis
    using t entry finite by (intro exI [of _ t] exI [of _ ?row]) blast
qed

text \<open>
  Claim C3, as the code has it. Every field of the row that \<open>save_reading\<close> inserts
  is a float of the parameter map that is not NaN, under a column of the reading table
  other than \<open>id\<close> and \<open>timestamp\<close>: \<open>None\<close>, NaN and names that are no column are
  dropped. Infinite values are not dropped; when the map holds none (as a map read from
  a device does, by C6), every stored field is finite.
\<close>

theorem save_reading_persists_valid:
  assumes "save_reading now mid data d = (Some k, d')"
  shows "\<exists>t row.
           pac3200_readings d = Some t \<and>
           pac3200_readings d' = Some (t\<lparr>rows := rows t @ [row], seq := k\<rparr>) \<and>
           row_id row = k \<and> timestamp row = now \<and>
           (\<forall>(c, x) \<in> set (vals row).
              \<not> isnan x \<and> (c, Some x) \<in> set data \<and>
              c \<in> set (columns t) \<and> c \<noteq> ''id'' \<and> c \<noteq> ''timestamp'') \<and>
           ((\<forall>(c, v) \<in> set data. \<forall>x. v = Some x \<longrightarrow> \<not> isinf x) \<longrightarrow>
            (\<forall>(c, x) \<in> set (vals row). \<exists>y. x = Finite y))"
  using assms by (rule save_reading_row_entries)

lemma filtered_example:
  "filtered_data (snd (init_database (empty_database :: 'ts database))) ''m1'' example_data
    = [(''Frequency'', CReal (Finite 50)), (''meter_id'', CText ''m1'')]"
  by (simp add: filtered_data_def valid_data_def db_columns_def existing_columns_def
      init_empty reading_columns_def example_data_def)

lemma save_example:
  "save_reading (0::nat) ''m1'' example_data (snd (init_database empty_database)) =
     (Some 1,
      \<lparr>pac3200_readings =
         Some \<lparr>columns = reading_columns,
               rows = [\<lparr>row_id = 1, row_meter_id = Some ''m1'', timestamp = 0,
                        vals = [(''Frequency'', Finite 50)]\<rparr>],
               seq = 1\<rparr>,
       pac3200_readings_backup = None, meters_config = Some [],
       idx_readings_meter_timestamp = Some ''pac3200_readings''\<rparr>)"
  by (simp add: save_reading_inserts [OF initial_readings] reading_columns_meter_id
      filtered_example inserted_row_def)
     (simp add: init_empty)

theorem save_reading_persists_valid_witness:
  "save_reading (0::nat) ''m1'' example_data (snd (init_database empty_database)) =
     (Some 1,
      \<lparr>pac3200_readings =
         Some \<lparr>columns = reading_columns,
               rows = [\<lparr>row_id = 1, row_meter_id = Some ''m1'', timestamp = 0,
                        vals = [(''Frequency'', Finite 50)]\<rparr>],
               seq = 1\<rparr>,
       pac3200_readings_backup = None, meters_config = Some [],
       idx_readings_meter_timestamp = Some ''pac3200_readings''\<rparr>) \<and>
   (''Frequency'', Some (Finite 50)) \<in> set example_data \<and>
   ''Frequency'' \<in> set reading_columns"
proof -
  note w = save_reading_persists_valid [OF save_example]
  have b: "(''Frequency'', Some (Finite 50)) \<in> set example_data"
    by (simp add: example_data_def)
  have c: "''Frequency'' \<in> set reading_columns"
    by (simp add: reading_columns_def)
  from w save_example b c show ?thesis
    by - (intro conjI, assumption+)
qed

section \<open>The duplicated key of the register map\<close>

lemma literal_length: "length registers_literal = 81"
  by (simp add: registers_literal_def)

lemma literal_no_Minimum_Current_2: "''Minimum_Current_2'' \<notin> set (map fst registers_literal)"
  by (simp add: registers_literal_def)

text \<open>The dict has 80 entries, not 79.\<close>

theorem registers_count_counterexample: "length registers \<noteq> 79"
  by (simp add: registers_length)

text \<open>
  Claim C10, with the count the code has. The dict display has 81 entries and binds
  \<open>Maximum_Current_2\<close> twice, to 89 and then to 159; it never binds
  \<open>Minimum_Current_2\<close>. The dict therefore has 80 entries and maps
  \<open>Maximum_Current_2\<close> to 159; \<open>read_all_parameters\<close> never yields a
  \<open>Minimum_Current_2\<close> entry, and the row that \<open>save_reading\<close> inserts for a map
  read from a meter leaves the column \<open>Minimum_Current_2\<close> \<open>NULL\<close>.
\<close>

theorem registers_effective_map:
  "filter (\<lambda>(k, v). k = ''Maximum_Current_2'') registers_literal
     = [(''Maximum_Current_2'', 89), (''Maximum_Current_2'', 159)] \<and>
   ''Minimum_Current_2'' \<notin> set (map fst registers_literal) \<and>
   length registers_literal = 81 \<and>
   length registers = 80 \<and>
   map_of registers ''Maximum_Current_2'' = Some 159 \<and>
   ''Minimum_Current_2'' \<notin> set (map fst (fst (read_all_parameters MA sk env now m))) \<and>
   (\<forall>k d'. save_reading t mid (fst (read_all_parameters MA sk env now m)) d = (Some k, d') \<longrightarrow>
      (\<exists>tb row. pac3200_readings d = Some tb \<and>
                pac3200_readings d' = Some (tb\<lparr>rows := rows tb @ [row], seq := k\<rparr>) \<and>
                map_of (vals row) ''Minimum_Current_2'' = None))"
proof (intro conjI allI impI)
  show "''Minimum_Current_2'' \<notin> set (map fst (fst (read_all_parameters MA sk env now m)))"
    by (simp only: read_all_parameters_keys registers_no_Minimum_Current_2 not_False_eq_True)
next
  fix k d'
  let ?data = "fst (read_all_parameters MA sk env now m)"
  assume s: "save_reading t mid ?data d = (Some k, d')"
  from save_reading_row_entries [OF s] obtain tb row where
    tb: "pac3200_readings d = Some tb"
      "pac3200_readings d' = Some (tb\<lparr>rows := rows tb @ [row], seq := k\<rparr>)" and
    entries: "\<forall>(c, x) \<in> set (vals row). \<not> isnan x \<and> (c, Some x) \<in> set ?data \<and>
              c \<in> set (columns tb) \<and> c \<noteq> ''id'' \<and> c \<noteq> ''timestamp''"
    by blast
  have "''Minimum_Current_2'' \<notin> fst ` set (vals row)"
  proof
    assume "''Minimum_Current_2'' \<in> fst ` set (vals row)"
    then obtain x where "(''Minimum_Current_2'', x) \<in> set (vals row)" by auto
    with entries have "(''Minimum_Current_2'', Some x) \<in> set ?data" by blast
    then have "''Minimum_Current_2'' \<in> set (map fst ?data)" by force
    then show False
      by (simp only: read_all_parameters_keys registers_no_Minimum_Current_2)
  qed
  then have "map_of (vals row) ''Minimum_Current_2'' = None"
    by (simp add: map_of_eq_None_iff)
  with tb show "\<exists>tb row. pac3200_readings d = Some tb \<and>
                pac3200_readings d' = Some (tb\<lparr>rows := rows tb @ [row], seq := k\<rparr>) \<and>
                map_of (vals row) ''Minimum_Current_2'' = None"
    by blast
qed (simp_all only: literal_Maximum_Current_2 literal_no_Minimum_Current_2 literal_length
       registers_length registers_Maximum_Current_2 not_False_eq_True)

theorem registers_effective_map_witness:
  "length registers = 80 \<and> map_of registers ''Maximum_Current_2'' = Some 159 \<and>
   ''Minimum_Current_2'' \<notin> set (map fst (fst (read_all_parameters True (\<lambda>_. True)
       (\<lambda>a. quiet_env (Registers [0x4248, 0])) (0::nat) connected_meter)))"
  using registers_effective_map [of True "\<lambda>_. True" "\<lambda>a. quiet_env (Registers [0x4248, 0])"
      "0::nat" connected_meter "0::nat" "''m1''" "snd (init_database empty_database)"]
  by - (intro conjI, (elim conjE, assumption)+)

section \<open>Initialising the database\<close>



lemma init_database_failure: "\<not> fst (init_database d) \<Longrightarrow> init_database d = (False, d)"
  by (auto simp: init_database_def Let_def split: if_splits)


lemma init_database_config:
  "fst (init_database d) \<Longrightarrow>
   meters_config (snd (init_database d)) = Some (case meters_config d of None \<Rightarrow> [] | Some c \<Rightarrow> c)"
  by (auto simp: init_database_def Let_def drop_readings_def split: if_splits option.splits)








section \<open>The meter registry\<close>

lemma fold_update_last:
  "map_of (fold (\<lambda>row ms. AList.update (key row) (f row) ms) (xs @ [r]) ms0) (key r) = Some (f r)"
  by (simp add: AList.update_conv')

lemma or_empty_Some: "or_empty (Some t) = t"
  by (simp add: or_empty_def)

lemma fresh_load_after:
  assumes "meters_config d = Some (cfg @ [\<lparr>cfg_meter_id = mid, cfg_name = nm, cfg_host = h,
      cfg_port = p, cfg_unit_id = u, cfg_location = Some loc, cfg_description = Some descr,
      created_at = t1, updated_at = t2\<rparr>])"
  shows "map_of (meters (fresh_load d sk)) mid = Some (PAC3200Meter mid nm h p u loc descr)"
proof -
  let ?r = "\<lparr>cfg_meter_id = mid, cfg_name = nm, cfg_host = h,
      cfg_port = p, cfg_unit_id = u, cfg_location = Some loc, cfg_description = Some descr,
      created_at = t1, updated_at = t2\<rparr>"
  let ?f = "\<lambda>row. PAC3200Meter (cfg_meter_id row) (cfg_name row) (cfg_host row)
                           (cfg_port row) (cfg_unit_id row)
                           (or_empty (cfg_location row)) (or_empty (cfg_description row))"
  have "map_of (fold (\<lambda>row ms. AList.update (cfg_meter_id row) (?f row) ms) (cfg @ [?r]) [])
          (cfg_meter_id ?r) = Some (?f ?r)"
    by (rule fold_update_last)
  then show ?thesis
    by (simp add: fresh_load_def load_meters_config_def assms or_empty_Some)
qed

lemma add_meter_ok:
  assumes "meters_config (db s) = Some cfg" "sqlite_integer p" "sqlite_integer u"
  shows "add_meter now mid nm h p u loc descr s =
    (True, s\<lparr>db := (db s)\<lparr>meters_config := Some (filter (\<lambda>r. cfg_meter_id r \<noteq> mid) cfg @
      [\<lparr>cfg_meter_id = mid, cfg_name = nm, cfg_host = h, cfg_port = p, cfg_unit_id = u,
        cfg_location = Some loc, cfg_description = Some descr, created_at = now,
        updated_at = now\<rparr>])\<rparr>,
      meters := AList.update mid (PAC3200Meter mid nm h p u loc descr) (meters s)\<rparr>)"
  using assms by (simp add: add_meter_def Let_def)

lemma init_database_keeps_config:
  "meters_config d = Some cfg \<Longrightarrow> meters_config (snd (init_database d)) = Some cfg"
  by (cases "fst (init_database d)")
     (simp_all add: init_database_config init_database_failure)

text \<open>
  Claim C7. On a database that has the configuration table (as it has once
  \<open>init_database\<close> has run), and for a port and a unit id that SQLite can store,
  \<open>add_meter\<close> succeeds, and a load into an empty \<open>self.meters\<close> on the resulting
  database, with or without the \<open>init_database\<close> that the constructor runs first,
  binds the identifier to a meter object equal to the one \<open>PAC3200Meter\<close> builds from
  the arguments of \<open>add_meter\<close>: the same host, port, unit id and location (and name
  and description).
\<close>

theorem add_then_load_roundtrip:
  assumes "meters_config (db s) \<noteq> None" and "sqlite_integer p" and "sqlite_integer u"
  shows "fst (add_meter now mid nm h p u loc descr s) \<and>
         map_of (meters (fresh_load (db (snd (add_meter now mid nm h p u loc descr s))) sk)) mid
           = Some (PAC3200Meter mid nm h p u loc descr) \<and>
         map_of (meters (MultiMeterDashboard
                           (db (snd (add_meter now mid nm h p u loc descr s))) sk)) mid
           = Some (PAC3200Meter mid nm h p u loc descr) \<and>
         host (PAC3200Meter mid nm h p u loc descr :: 'a meter) = h \<and>
         port (PAC3200Meter mid nm h p u loc descr :: 'a meter) = p \<and>
         unit_id (PAC3200Meter mid nm h p u loc descr :: 'a meter) = u \<and>
         location (PAC3200Meter mid nm h p u loc descr :: 'a meter) = loc"
proof -
  from assms(1) obtain cfg where cfg: "meters_config (db s) = Some cfg" by auto
  note a = add_meter_ok [OF cfg assms(2,3), of now mid nm h loc descr]
  let ?d = "db (snd (add_meter now mid nm h p u loc descr s))"
  have c: "meters_config ?d = Some (filter (\<lambda>r. cfg_meter_id r \<noteq> mid) cfg @
      [\<lparr>cfg_meter_id = mid, cfg_name = nm, cfg_host = h, cfg_port = p, cfg_unit_id = u,
        cfg_location = Some loc, cfg_description = Some descr, created_at = now,
        updated_at = now\<rparr>])"
    by (simp add: a)
  have 1: "fst (add_meter now mid nm h p u loc descr s)" by (simp add: a)
  have 2: "map_of (meters (fresh_load ?d sk)) mid = Some (PAC3200Meter mid nm h p u loc descr)"
    by (rule fresh_load_after [OF c])
  have 3: "map_of (meters (MultiMeterDashboard ?d sk)) mid
             = Some (PAC3200Meter mid nm h p u loc descr)"
    unfolding MultiMeterDashboard_def
    by (rule fresh_load_after [OF init_database_keeps_config [OF c]])
  show ?thesis
    using 1 2 3 by (simp add: PAC3200Meter_def)
qed

lemma new_dashboard_config: "meters_config (db new_dashboard) = Some []"
  by (simp add: new_dashboard_def init_empty)

theorem add_then_load_roundtrip_witness:
  "meters_config (db new_dashboard) \<noteq> None \<and> sqlite_integer 502 \<and> sqlite_integer 1 \<and>
   fst (add_meter 0 ''m1'' ''Main'' ''192.168.0.101'' 502 1 ''Hall'' [] new_dashboard) \<and>
   map_of (meters (fresh_load
       (db (snd (add_meter 0 ''m1'' ''Main'' ''192.168.0.101'' 502 1 ''Hall'' [] new_dashboard)))
       (\<lambda>_. False))) ''m1''
     = Some (PAC3200Meter ''m1'' ''Main'' ''192.168.0.101'' 502 1 ''Hall'' [])"
proof -
  have h: "meters_config (db new_dashboard) \<noteq> None" "sqlite_integer 502" "sqlite_integer 1"
    by (simp_all add: new_dashboard_config sqlite_integer_def)
  note w = add_then_load_roundtrip [OF h, of 0 "''m1''" "''Main''" "''192.168.0.101''" "''Hall''" "[]"
      "\<lambda>_. False"]
  from w have a: "fst (add_meter 0 ''m1'' ''Main'' ''192.168.0.101'' 502 1 ''Hall'' [] new_dashboard)"
    by (rule conjunct1)
  from w have b: "map_of (meters (fresh_load
       (db (snd (add_meter 0 ''m1'' ''Main'' ''192.168.0.101'' 502 1 ''Hall'' [] new_dashboard)))
       (\<lambda>_. False))) ''m1''
     = Some (PAC3200Meter ''m1'' ''Main'' ''192.168.0.101'' 502 1 ''Hall'' [])"
    by (elim conjE)
  from h a b show ?thesis by (intro conjI)
qed

lemma delete_absent: "map_of (AList.delete k al) k = None"
  by (simp add: AList.delete_conv')

lemma delete_other: "i \<noteq> k \<Longrightarrow> map_of (AList.delete k al) i = map_of al i"
  by (simp add: AList.delete_conv')

text \<open>
  Claim C8. \<open>remove_meter\<close> leaves the reading table (and the backup table) as they
  are, for every identifier. It drops the identifier from \<open>self.meters\<close> and no other;
  it closes the socket of the removed meter's client when the Modbus library is there,
  and no other socket; and it deletes the configuration rows of that identifier and no
  other (when the configuration table is missing, the \<open>DELETE\<close> raises and \<open>False\<close>
  is returned).
\<close>

theorem remove_meter_keeps_readings:
  "pac3200_readings (db (snd (remove_meter MA mid s))) = pac3200_readings (db s) \<and>
   pac3200_readings_backup (db (snd (remove_meter MA mid s))) = pac3200_readings_backup (db s) \<and>
   map_of (meters (snd (remove_meter MA mid s))) mid = None \<and>
   (\<forall>i. i \<noteq> mid \<longrightarrow> map_of (meters (snd (remove_meter MA mid s))) i = map_of (meters s) i) \<and>
   (\<forall>cfg. meters_config (db s) = Some cfg \<longrightarrow>
      fst (remove_meter MA mid s) \<and>
      meters_config (db (snd (remove_meter MA mid s)))
        = Some (filter (\<lambda>r. cfg_meter_id r \<noteq> mid) cfg)) \<and>
   (meters_config (db s) = None \<longrightarrow>
      \<not> fst (remove_meter MA mid s) \<and> meters_config (db (snd (remove_meter MA mid s))) = None) \<and>
   (\<forall>m c. MA \<and> map_of (meters s) mid = Some m \<and> client m = Some c \<longrightarrow>
      \<not> sockets (snd (remove_meter MA mid s)) c) \<and>
   (\<forall>c. (\<forall>m. map_of (meters s) mid = Some m \<longrightarrow> client m \<noteq> Some c) \<longrightarrow>
      sockets (snd (remove_meter MA mid s)) c = sockets s c)"
  by (cases "map_of (meters s) mid"; cases "meters_config (db s)")
     (auto simp: remove_meter_def Let_def disconnect_def delete_absent delete_other
        split: option.splits)

lemma running_facts:
  "map_of (meters running_dashboard) ''m1'' = Some connected_meter"
  "sockets running_dashboard 0"
  "pac3200_readings (db running_dashboard) = pac3200_readings same_second_database"
  "meters_config (db running_dashboard) = meters_config same_second_database"
  by (simp_all add: running_dashboard_def)

theorem remove_meter_keeps_readings_witness:
  "map_of (meters running_dashboard) ''m1'' = Some connected_meter \<and>
   client connected_meter = Some 0 \<and> sockets running_dashboard 0 \<and>
   pac3200_readings (db (snd (remove_meter True ''m1'' running_dashboard)))
     = pac3200_readings same_second_database \<and>
   fst (remove_meter True ''m1'' running_dashboard) \<and>
   meters_config (db (snd (remove_meter True ''m1'' running_dashboard))) = Some [] \<and>
   map_of (meters (snd (remove_meter True ''m1'' running_dashboard))) ''m1'' = None \<and>
   \<not> sockets (snd (remove_meter True ''m1'' running_dashboard)) 0"
  using remove_meter_keeps_readings [of True "''m1''" running_dashboard]
  by (simp add: running_facts connected_meter_client)
     (simp add: same_second_database_def empty_database_def same_second_config_def)

section \<open>The latest reading of every meter\<close>


















section \<open>Aggregation over all meters\<close>













end
